theory Spec2Isabelle
  imports Main "HOL-Library.Word"
begin

section \<open>Memory model\<close>

text \<open>
  The library of \<^verbatim>\<open>shared_ptr.hpp\<close> is modelled over an explicit store. Control blocks
  live in a heap indexed by their address; \<^verbatim>\<open>SharedPtr\<close> and \<^verbatim>\<open>WeakPtr\<close> objects live in
  two stores indexed by the address of the handle object, so that the identity test
  \<^verbatim>\<open>this != &other\<close> of the assignment operators is a comparison of addresses.
  Every allocation returns a fresh address, so a block address names one block over the
  whole run. Reading through a null block pointer, touching a block after its memory was
  deallocated, using a handle object outside its lifetime, and destroying an object twice
  are undefined behaviour in C++; the model stops there with a fault and keeps the state
  reached so far. A C++ exception is the outcome \<open>Thrown\<close>: it ends the operation that
  throws, with the state it leaves behind, and the caller catches it and goes on.
\<close>

type_synonym addr = nat

text \<open>The element type \<^verbatim>\<open>T\<close> of a template instantiation is a tag.\<close>

type_synonym ctype = nat

text \<open>
  A managed object is either an object the caller handed in by raw pointer, or the
  \<^verbatim>\<open>value\<close> member stored inside the \<^verbatim>\<open>BlockVault\<close> at the given block address.
\<close>

datatype obj = External nat | InPlace addr

text \<open>
  \<^verbatim>\<open>std::default_delete\<close> deletes the object. \<open>CustomDeleter\<close> is a callable of the caller
  that leaves the object alone (as the counting deleter of \<^verbatim>\<open>main.cpp\<close>, given an object on
  the stack); \<open>DeletingDeleter\<close> is one that deletes it.
\<close>

datatype deleter = DefaultDelete | CustomDeleter nat | DeletingDeleter nat

text \<open>A handle that is a data member of a managed object, by the address of the handle.\<close>

datatype handle = Strong addr | Weak addr

text \<open>The dynamic type of a block: \<^verbatim>\<open>ControlBlock<T, Deleter, Allocator>\<close> or \<^verbatim>\<open>BlockVault<T, Allocator>\<close>.\<close>

datatype block_kind = ControlBlock deleter | BlockVault

record block =
  elem :: ctype
  pointer :: "obj option"
  shared_count :: "64 word"
  weak_count :: "64 word"
  kind :: block_kind

text \<open>
  The observable effects, in program order. \<open>ReleaseShared\<close> is the entry of
  \<^verbatim>\<open>release_shared\<close> and \<open>ReleasedShared\<close> its return. \<open>ReleaseWeak\<close> records the two
  counters of the block as they are when \<^verbatim>\<open>release_weak\<close> is entered.
\<close>

datatype event =
    Allocate addr
  | Deallocate addr
  | DestroyBlock addr
  | DestroyValue addr
  | DeleterCall deleter "obj option"
  | ReleaseShared addr
  | ReleasedShared addr
  | ReleaseWeak addr "64 word" "64 word"

text \<open>
  \<open>Exhausted\<close> is the end of the nesting budget of destructors; it never comes out of an
  operation (see \<open>exec_never_exhausted\<close>).
\<close>

datatype fault =
  NullDereference | UseAfterFree | ObjectLifetime | DoubleDestroy | Thrown | Exhausted

text \<open>
  \<open>objects\<close> lists the live objects that hold handles as data members, each with its
  member handles in the order its destructor destroys them; \<open>destroyed\<close> lists the objects
  whose destructor has run.
\<close>

record state =
  blocks :: "addr \<Rightarrow> block option"
  next_block :: addr
  shared_ptrs :: "addr \<Rightarrow> addr option option"
  weak_ptrs :: "addr \<Rightarrow> addr option option"
  objects :: "(obj \<times> handle list) list"
  destroyed :: "obj list"
  trace :: "event list"

definition init :: state where
  "init = \<lparr>blocks = (\<lambda>_. None), next_block = 0, shared_ptrs = (\<lambda>_. None),
            weak_ptrs = (\<lambda>_. None), objects = [], destroyed = [], trace = []\<rparr>"

type_synonym action = "state \<Rightarrow> fault option \<times> state"

text \<open>Sequencing of two statements: a fault in the first one ends the run.\<close>

definition seq :: "action \<Rightarrow> action \<Rightarrow> action" where
  "seq m f s = (case m s of (Some e, s') \<Rightarrow> (Some e, s') | (None, s') \<Rightarrow> f s')"

text \<open>\<^verbatim>\<open>p->member\<close> on a block pointer known to be non-null: the block must still be allocated.\<close>

definition with_block :: "addr \<Rightarrow> (block \<Rightarrow> action) \<Rightarrow> action" where
  "with_block this f s =
     (case blocks s this of None \<Rightarrow> (Some UseAfterFree, s) | Some blk \<Rightarrow> f blk s)"

text \<open>\<^verbatim>\<open>control_block_->f()\<close> with no null test before it.\<close>

definition arrow :: "addr option \<Rightarrow> (addr \<Rightarrow> action) \<Rightarrow> action" where
  "arrow cb f s = (case cb of None \<Rightarrow> (Some NullDereference, s) | Some b \<Rightarrow> f b s)"

definition put_block :: "addr \<Rightarrow> block \<Rightarrow> state \<Rightarrow> state" where
  "put_block this blk s = s\<lparr>blocks := (blocks s)(this \<mapsto> blk)\<rparr>"

definition emit :: "event list \<Rightarrow> state \<Rightarrow> state" where
  "emit es s = s\<lparr>trace := trace s @ es\<rparr>"

definition skip :: action where
  "skip s = (None, s)"

text \<open>A statement that only logs.\<close>

definition say :: "event list \<Rightarrow> action" where
  "say es s = (None, emit es s)"

text \<open>The same action on each element of a list, in order.\<close>

fun each :: "('a \<Rightarrow> action) \<Rightarrow> 'a list \<Rightarrow> action" where
  "each D [] = skip"
| "each D (h # hs) = seq (D h) (each D hs)"

section \<open>BaseControlBlock, ControlBlock, BlockVault\<close>

text \<open>
  \<^verbatim>\<open>BaseControlBlock(T* ptr)\<close> with the default member initialisers
  \<^verbatim>\<open>shared_count{1}\<close>, \<^verbatim>\<open>weak_count{0}\<close>.
\<close>

definition new_block :: "ctype \<Rightarrow> obj option \<Rightarrow> block_kind \<Rightarrow> block" where
  "new_block T ptr k =
     \<lparr>elem = T, pointer = ptr, shared_count = 1, weak_count = 0, kind = k\<rparr>"

definition increase_shared_count :: "addr \<Rightarrow> action" where
  "increase_shared_count this =
     with_block this (\<lambda>blk s.
       (None, put_block this (blk\<lparr>shared_count := shared_count blk + 1\<rparr>) s))"

definition increase_weak_count :: "addr \<Rightarrow> action" where
  "increase_weak_count this =
     with_block this (\<lambda>blk s.
       (None, put_block this (blk\<lparr>weak_count := weak_count blk + 1\<rparr>) s))"

text \<open>
  The destructor of a managed object: it destroys the handles the object holds as data
  members, and so re-enters the library. \<open>D\<close> is what destroying one member handle does.
  Running it on an object already destroyed is undefined behaviour. A destructor body or
  a deleter written by the caller that calls further operations of the library is beyond
  this; no theorem below speaks of the counters across a release.
\<close>

definition members_of :: "state \<Rightarrow> obj \<Rightarrow> handle list" where
  "members_of s ob = (case map_of (objects s) ob of None \<Rightarrow> [] | Some hs \<Rightarrow> hs)"

definition destroy_object :: "(handle \<Rightarrow> action) \<Rightarrow> obj \<Rightarrow> action" where
  "destroy_object D ob s =
     (if ob \<in> set (destroyed s) then (Some DoubleDestroy, s)
      else each D (members_of s ob)
             (s\<lparr>objects := filter (\<lambda>p. fst p \<noteq> ob) (objects s),
                destroyed := ob # destroyed s\<rparr>))"

text \<open>
  \<^verbatim>\<open>deleter(this->pointer)\<close>: the call is logged; \<^verbatim>\<open>std::default_delete\<close> and a deleting
  callable run \<^verbatim>\<open>delete\<close> on the pointer, which does nothing on null and otherwise runs
  the destructor of the object.
\<close>

definition call_deleter :: "(handle \<Rightarrow> action) \<Rightarrow> deleter \<Rightarrow> obj option \<Rightarrow> action" where
  "call_deleter D d ptr =
     seq (say [DeleterCall d ptr])
       (case d of
          CustomDeleter n \<Rightarrow> skip
        | _ \<Rightarrow> (case ptr of None \<Rightarrow> skip | Some ob \<Rightarrow> destroy_object D ob))"

text \<open>
  The virtual \<^verbatim>\<open>release_shared\<close>: \<^verbatim>\<open>ControlBlock\<close> calls the deleter on the pointer,
  \<^verbatim>\<open>BlockVault\<close> destroys the value in place; then both write null to
  \<^verbatim>\<open>this->pointer\<close>, which needs the block to be still allocated.
\<close>

definition release_shared :: "(handle \<Rightarrow> action) \<Rightarrow> addr \<Rightarrow> action" where
  "release_shared D this =
     with_block this (\<lambda>blk.
       seq (say [ReleaseShared this])
         (seq (case kind blk of
                 ControlBlock d \<Rightarrow> call_deleter D d (pointer blk)
               | BlockVault \<Rightarrow> seq (say [DestroyValue this]) (destroy_object D (InPlace this)))
            (with_block this (\<lambda>blk' s.
               (None, emit [ReleasedShared this] (put_block this (blk'\<lparr>pointer := None\<rparr>) s))))))"

text \<open>
  The virtual \<^verbatim>\<open>release_weak\<close>: \<^verbatim>\<open>ControlBlock\<close> destroys and deallocates itself,
  \<^verbatim>\<open>BlockVault\<close> only deallocates itself. The block leaves the heap.
\<close>

definition release_weak :: "addr \<Rightarrow> action" where
  "release_weak this =
     with_block this (\<lambda>blk s.
       (case kind blk of
          ControlBlock d \<Rightarrow>
            (None, (emit [ReleaseWeak this (shared_count blk) (weak_count blk),
                          DestroyBlock this, Deallocate this] s)
                     \<lparr>blocks := (blocks s)(this := None)\<rparr>)
        | BlockVault \<Rightarrow>
            (None, (emit [ReleaseWeak this (shared_count blk) (weak_count blk),
                          Deallocate this] s)
                     \<lparr>blocks := (blocks s)(this := None)\<rparr>)))"

definition decrease_shared_counter :: "(handle \<Rightarrow> action) \<Rightarrow> addr \<Rightarrow> action" where
  "decrease_shared_counter D this =
     with_block this (\<lambda>blk.
       seq (\<lambda>s. (None, put_block this (blk\<lparr>shared_count := shared_count blk - 1\<rparr>) s))
         (if shared_count blk - 1 = 0
          then seq (release_shared D this)
                 (with_block this (\<lambda>blk'.
                    if weak_count blk' = 0 then release_weak this else (\<lambda>s. (None, s))))
          else (\<lambda>s. (None, s))))"

definition decrease_weak_counter :: "addr \<Rightarrow> action" where
  "decrease_weak_counter this =
     with_block this (\<lambda>blk.
       seq (\<lambda>s. (None, put_block this (blk\<lparr>weak_count := weak_count blk - 1\<rparr>) s))
         (if shared_count blk = 0 \<and> weak_count blk - 1 = 0
          then release_weak this
          else (\<lambda>s. (None, s))))"

text \<open>\<^verbatim>\<open>allocate(alloc, 1)\<close> and \<^verbatim>\<open>new\<close>: raw memory at a fresh address.\<close>

definition allocate :: "state \<Rightarrow> addr \<times> state" where
  "allocate s =
     (next_block s, emit [Allocate (next_block s)] (s\<lparr>next_block := Suc (next_block s)\<rparr>))"

text \<open>
  \<^verbatim>\<open>dynamic_cast<BaseControlBlock<T>*>(p)\<close>: null stays null; otherwise the run-time
  check succeeds exactly when the block is a \<^verbatim>\<open>BaseControlBlock<T>\<close>, and two different
  instantiations of \<^verbatim>\<open>BaseControlBlock\<close> are unrelated classes.
\<close>

definition dynamic_cast :: "ctype \<Rightarrow> addr option \<Rightarrow> state \<Rightarrow> fault + addr option" where
  "dynamic_cast T cb s =
     (case cb of
        None \<Rightarrow> Inr None
      | Some b \<Rightarrow>
          (case blocks s b of
             None \<Rightarrow> Inl UseAfterFree
           | Some blk \<Rightarrow> Inr (if elem blk = T then Some b else None)))"

section \<open>Destructors\<close>

text \<open>A member function called on the live handle object at address \<open>this\<close>.\<close>

definition with_shared :: "addr \<Rightarrow> (addr option \<Rightarrow> action) \<Rightarrow> action" where
  "with_shared this f s =
     (case shared_ptrs s this of None \<Rightarrow> (Some ObjectLifetime, s) | Some cb \<Rightarrow> f cb s)"

definition with_weak :: "addr \<Rightarrow> (addr option \<Rightarrow> action) \<Rightarrow> action" where
  "with_weak this f s =
     (case weak_ptrs s this of None \<Rightarrow> (Some ObjectLifetime, s) | Some cb \<Rightarrow> f cb s)"

text \<open>
  \<^verbatim>\<open>~SharedPtr\<close>: \<^verbatim>\<open>if (control_block_ != nullptr) control_block_->decrease_shared_counter();\<close>
  and afterwards the handle object is gone.
\<close>

definition destroy_shared :: "(handle \<Rightarrow> action) \<Rightarrow> addr \<Rightarrow> action" where
  "destroy_shared D this =
     with_shared this (\<lambda>cb.
       seq (case cb of None \<Rightarrow> skip | Some b \<Rightarrow> decrease_shared_counter D b)
         (\<lambda>s. (None, s\<lparr>shared_ptrs := (shared_ptrs s)(this := None)\<rparr>)))"

text \<open>\<^verbatim>\<open>~WeakPtr\<close>; \<^verbatim>\<open>release_weak\<close> destroys no managed object.\<close>

definition WeakPtr_dtor :: "addr \<Rightarrow> action" where
  "WeakPtr_dtor this =
     with_weak this (\<lambda>cb.
       seq (case cb of None \<Rightarrow> (\<lambda>s. (None, s)) | Some b \<Rightarrow> decrease_weak_counter b)
         (\<lambda>s. (None, s\<lparr>weak_ptrs := (weak_ptrs s)(this := None)\<rparr>)))"

text \<open>
  Destroying a member handle from inside a destructor, at most \<open>n\<close> destructors of managed
  objects deep. Each level of nesting destroys one more object of \<open>objects\<close>, so the number
  of objects listed is budget enough at the top level.
\<close>

fun destroy_member :: "nat \<Rightarrow> handle \<Rightarrow> action" where
  "destroy_member 0 h = (\<lambda>s. (Some Exhausted, s))"
| "destroy_member (Suc n) (Strong h) = destroy_shared (destroy_member n) h"
| "destroy_member (Suc n) (Weak w) = WeakPtr_dtor w"

definition destructors :: "state \<Rightarrow> handle \<Rightarrow> action" where
  "destructors s = destroy_member (length (objects s))"

text \<open>\<^verbatim>\<open>if (control_block_ != nullptr) control_block_->decrease_shared_counter();\<close>\<close>

definition drop_shared :: "addr option \<Rightarrow> action" where
  "drop_shared cb s =
     (case cb of None \<Rightarrow> (None, s) | Some b \<Rightarrow> decrease_shared_counter (destructors s) b s)"

definition SharedPtr_dtor :: "addr \<Rightarrow> action" where
  "SharedPtr_dtor this s = destroy_shared (destructors s) this s"

section \<open>SharedPtr\<close>

definition set_shared :: "addr \<Rightarrow> addr option \<Rightarrow> action" where
  "set_shared this cb s = (None, s\<lparr>shared_ptrs := (shared_ptrs s)(this \<mapsto> cb)\<rparr>)"

text \<open>A constructor runs on storage that holds no live handle yet.\<close>

definition fresh_shared :: "addr \<Rightarrow> action \<Rightarrow> action" where
  "fresh_shared this f s =
     (if shared_ptrs s this = None then f s else (Some ObjectLifetime, s))"

definition SharedPtr_default :: "addr \<Rightarrow> action" where
  "SharedPtr_default this = fresh_shared this (set_shared this None)"

definition SharedPtr_nullptr :: "addr \<Rightarrow> action" where
  "SharedPtr_nullptr this = fresh_shared this (set_shared this None)"

text \<open>The private \<^verbatim>\<open>SharedPtr(BaseControlBlock<T>*)\<close>: stores the pointer, nothing else.\<close>

definition SharedPtr_block :: "addr \<Rightarrow> addr option \<Rightarrow> action" where
  "SharedPtr_block this control_block = fresh_shared this (set_shared this control_block)"

text \<open>\<^verbatim>\<open>SharedPtr(Y* ptr)\<close>: \<^verbatim>\<open>new ControlBlock<T>(ptr)\<close>, whatever \<open>ptr\<close> is.\<close>

definition SharedPtr_ptr :: "ctype \<Rightarrow> addr \<Rightarrow> obj option \<Rightarrow> action" where
  "SharedPtr_ptr T this ptr =
     fresh_shared this (\<lambda>s.
       (case allocate s of (b, s1) \<Rightarrow>
          set_shared this (Some b)
            (put_block b (new_block T ptr (ControlBlock DefaultDelete)) s1)))"

definition SharedPtr_ptr_deleter :: "ctype \<Rightarrow> addr \<Rightarrow> obj option \<Rightarrow> deleter \<Rightarrow> action" where
  "SharedPtr_ptr_deleter T this ptr d =
     fresh_shared this (\<lambda>s.
       (case allocate s of (b, s1) \<Rightarrow>
          set_shared this (Some b) (put_block b (new_block T ptr (ControlBlock d)) s1)))"

text \<open>
  \<^verbatim>\<open>SharedPtr(Y* ptr, Deleter deleter, Allocator alloc)\<close>. The flag \<open>throws\<close> says whether
  \<^verbatim>\<open>ControlBlockTraits::construct\<close> throws (the block's constructor copies the deleter and
  the allocator). The handler calls the deleter and rethrows; the handle under
  construction never comes to life. The block is a \<^verbatim>\<open>ControlBlock<Y, Deleter, Allocator>\<close>
  and is assigned to a \<^verbatim>\<open>BaseControlBlock<T>*\<close>, which compiles for \<^verbatim>\<open>Y = T\<close> only.
\<close>

definition SharedPtr_ptr_deleter_alloc ::
  "ctype \<Rightarrow> addr \<Rightarrow> obj option \<Rightarrow> deleter \<Rightarrow> bool \<Rightarrow> action" where
  "SharedPtr_ptr_deleter_alloc T this ptr d throws =
     fresh_shared this (\<lambda>s.
       (case allocate s of (control_block, s1) \<Rightarrow>
          if throws
          then (Some Thrown, emit [DeleterCall d ptr] s1)
          else set_shared this (Some control_block)
                 (put_block control_block (new_block T ptr (ControlBlock d)) s1)))"

text \<open>\<^verbatim>\<open>control_block_ != nullptr && control_block_->pointer != nullptr\<close>, then increment.\<close>

definition share_if_pointer :: "addr option \<Rightarrow> action" where
  "share_if_pointer cb =
     (case cb of
        None \<Rightarrow> (\<lambda>s. (None, s))
      | Some b \<Rightarrow>
          with_block b (\<lambda>blk.
            if pointer blk \<noteq> None then increase_shared_count b else (\<lambda>s. (None, s))))"

definition SharedPtr_copy :: "addr \<Rightarrow> addr \<Rightarrow> action" where
  "SharedPtr_copy this other =
     fresh_shared this (with_shared other (\<lambda>cb.
       seq (set_shared this cb) (share_if_pointer cb)))"

definition SharedPtr_copy_conv :: "ctype \<Rightarrow> addr \<Rightarrow> addr \<Rightarrow> action" where
  "SharedPtr_copy_conv T this other =
     fresh_shared this (with_shared other (\<lambda>ocb s.
       (case dynamic_cast T ocb s of
          Inl e \<Rightarrow> (Some e, s)
        | Inr cb \<Rightarrow> seq (set_shared this cb) (share_if_pointer cb) s)))"

definition SharedPtr_move :: "addr \<Rightarrow> addr \<Rightarrow> action" where
  "SharedPtr_move this other =
     fresh_shared this (with_shared other (\<lambda>cb.
       seq (set_shared this cb) (set_shared other None)))"

definition SharedPtr_move_conv :: "ctype \<Rightarrow> addr \<Rightarrow> addr \<Rightarrow> action" where
  "SharedPtr_move_conv T this other =
     fresh_shared this (with_shared other (\<lambda>ocb s.
       (case dynamic_cast T ocb s of
          Inl e \<Rightarrow> (Some e, s)
        | Inr cb \<Rightarrow> seq (set_shared this cb) (set_shared other None) s)))"

text \<open>\<^verbatim>\<open>if (control_block_ != nullptr) control_block_->increase_shared_count();\<close>\<close>

definition take_shared :: "addr option \<Rightarrow> action" where
  "take_shared cb =
     (case cb of None \<Rightarrow> (\<lambda>s. (None, s)) | Some b \<Rightarrow> increase_shared_count b)"

definition SharedPtr_assign_copy :: "addr \<Rightarrow> addr \<Rightarrow> action" where
  "SharedPtr_assign_copy this other =
     (if this \<noteq> other
      then with_shared this (\<lambda>cb.
             seq (drop_shared cb)
               (with_shared other (\<lambda>ocb.
                  seq (set_shared this ocb) (take_shared ocb))))
      else (\<lambda>s. (None, s)))"

definition SharedPtr_assign_copy_conv :: "ctype \<Rightarrow> addr \<Rightarrow> addr \<Rightarrow> action" where
  "SharedPtr_assign_copy_conv T this other =
     with_shared this (\<lambda>cb.
       seq (drop_shared cb)
         (with_shared other (\<lambda>ocb s.
            (case dynamic_cast T ocb s of
               Inl e \<Rightarrow> (Some e, s)
             | Inr ncb \<Rightarrow> seq (set_shared this ncb) (take_shared ncb) s))))"

definition SharedPtr_assign_move :: "addr \<Rightarrow> addr \<Rightarrow> action" where
  "SharedPtr_assign_move this other =
     (if this \<noteq> other
      then with_shared this (\<lambda>cb.
             seq (drop_shared cb)
               (with_shared other (\<lambda>ocb.
                  seq (set_shared this ocb) (set_shared other None))))
      else (\<lambda>s. (None, s)))"

definition SharedPtr_assign_move_conv :: "ctype \<Rightarrow> addr \<Rightarrow> addr \<Rightarrow> action" where
  "SharedPtr_assign_move_conv T this other =
     with_shared this (\<lambda>cb.
       seq (drop_shared cb)
         (with_shared other (\<lambda>ocb s.
            (case dynamic_cast T ocb s of
               Inl e \<Rightarrow> (Some e, s)
             | Inr ncb \<Rightarrow> seq (set_shared this ncb) (set_shared other None) s))))"

text \<open>
  \<^verbatim>\<open>use_count\<close> returns \<^verbatim>\<open>int\<close>: the \<^verbatim>\<open>size_t\<close> counter is converted to 32 bits, two's
  complement.
\<close>

definition use_count :: "addr \<Rightarrow> state \<Rightarrow> fault + int" where
  "use_count this s =
     (case shared_ptrs s this of
        None \<Rightarrow> Inl ObjectLifetime
      | Some None \<Rightarrow> Inr 0
      | Some (Some b) \<Rightarrow>
          (case blocks s b of
             None \<Rightarrow> Inl UseAfterFree
           | Some blk \<Rightarrow> Inr (sint (ucast (shared_count blk) :: 32 word))))"

definition get :: "addr \<Rightarrow> state \<Rightarrow> fault + obj option" where
  "get this s =
     (case shared_ptrs s this of
        None \<Rightarrow> Inl ObjectLifetime
      | Some None \<Rightarrow> Inr None
      | Some (Some b) \<Rightarrow>
          (case blocks s b of
             None \<Rightarrow> Inl UseAfterFree
           | Some blk \<Rightarrow> Inr (pointer blk)))"

definition reset :: "addr \<Rightarrow> action" where
  "reset this =
     with_shared this (\<lambda>cb.
       (case cb of
          None \<Rightarrow> (\<lambda>s. (None, s))
        | Some b \<Rightarrow> seq (drop_shared cb) (set_shared this None)))"

text \<open>
  \<^verbatim>\<open>AllocateShared<T>(alloc, args...)\<close>, its result constructed at \<open>this\<close>. The flag
  \<open>throws\<close> says whether \<^verbatim>\<open>VaultAllocTraits::construct\<close> throws, that is whether the
  constructor of the managed object does. There is no handler around it.
\<close>

definition AllocateShared :: "ctype \<Rightarrow> addr \<Rightarrow> bool \<Rightarrow> action" where
  "AllocateShared T this throws =
     fresh_shared this (\<lambda>s.
       (case allocate s of (ptr, s1) \<Rightarrow>
          if throws
          then (Some Thrown, s1)
          else (let s2 = put_block ptr (new_block T (Some (InPlace ptr)) BlockVault) s1
                in case dynamic_cast T (Some ptr) s2 of
                     Inl e \<Rightarrow> (Some e, s2)
                   | Inr cb \<Rightarrow> SharedPtr_block this cb s2)))"

definition MakeShared :: "ctype \<Rightarrow> addr \<Rightarrow> bool \<Rightarrow> action" where
  "MakeShared T this throws = AllocateShared T this throws"

section \<open>WeakPtr\<close>

definition set_weak :: "addr \<Rightarrow> addr option \<Rightarrow> action" where
  "set_weak this cb s = (None, s\<lparr>weak_ptrs := (weak_ptrs s)(this \<mapsto> cb)\<rparr>)"

definition fresh_weak :: "addr \<Rightarrow> action \<Rightarrow> action" where
  "fresh_weak this f s =
     (if weak_ptrs s this = None then f s else (Some ObjectLifetime, s))"

definition WeakPtr_default :: "addr \<Rightarrow> action" where
  "WeakPtr_default this = fresh_weak this (set_weak this None)"

text \<open>The copy constructor increments through the pointer with no null test.\<close>

definition WeakPtr_copy :: "addr \<Rightarrow> addr \<Rightarrow> action" where
  "WeakPtr_copy this other =
     fresh_weak this (with_weak other (\<lambda>cb.
       seq (set_weak this cb) (arrow cb increase_weak_count)))"

definition WeakPtr_from_shared :: "addr \<Rightarrow> addr \<Rightarrow> action" where
  "WeakPtr_from_shared this other =
     fresh_weak this (with_shared other (\<lambda>cb.
       seq (set_weak this cb)
         (case cb of None \<Rightarrow> (\<lambda>s. (None, s)) | Some b \<Rightarrow> increase_weak_count b)))"

definition WeakPtr_move :: "addr \<Rightarrow> addr \<Rightarrow> action" where
  "WeakPtr_move this other =
     fresh_weak this (with_weak other (\<lambda>cb.
       seq (set_weak this cb) (set_weak other None)))"

text \<open>\<^verbatim>\<open>operator=(const WeakPtr&) = default\<close>: the member is copied.\<close>

definition WeakPtr_assign_copy :: "addr \<Rightarrow> addr \<Rightarrow> action" where
  "WeakPtr_assign_copy this other =
     with_weak this (\<lambda>_. with_weak other (\<lambda>ocb. set_weak this ocb))"

text \<open>
  \<^verbatim>\<open>control_block_ = std::move(other.control_block_)\<close>: moving a raw pointer copies it,
  and \<open>other\<close> is not written.
\<close>

definition WeakPtr_assign_move :: "addr \<Rightarrow> addr \<Rightarrow> action" where
  "WeakPtr_assign_move this other =
     with_weak this (\<lambda>_. with_weak other (\<lambda>ocb. set_weak this ocb))"

text \<open>\<^verbatim>\<open>return control_block_->shared_count == 0;\<close>\<close>

definition expired :: "addr \<Rightarrow> state \<Rightarrow> fault + bool" where
  "expired this s =
     (case weak_ptrs s this of
        None \<Rightarrow> Inl ObjectLifetime
      | Some None \<Rightarrow> Inl NullDereference
      | Some (Some b) \<Rightarrow>
          (case blocks s b of
             None \<Rightarrow> Inl UseAfterFree
           | Some blk \<Rightarrow> Inr (shared_count blk = 0)))"

text \<open>\<^verbatim>\<open>lock\<close>, its result constructed at \<open>ret\<close>.\<close>

definition lock :: "addr \<Rightarrow> addr \<Rightarrow> action" where
  "lock ret this =
     with_weak this (\<lambda>cb.
       (case cb of
          None \<Rightarrow> SharedPtr_default ret
        | Some b \<Rightarrow>
            with_block b (\<lambda>blk.
              if shared_count blk = 0 then SharedPtr_default ret
              else SharedPtr_block ret cb)))"

section \<open>Runs of public operations\<close>

text \<open>
  One constructor per public operation; the address of the handle the operation is
  called on (or constructs) comes first, the template argument \<^verbatim>\<open>T\<close> before it where
  the operation has one.
\<close>

text \<open>
  The caller's construction of an object of a class with handle members (\<^verbatim>\<open>new T(...)\<close>,
  or the value of an \<^verbatim>\<open>AllocateShared\<close> once it is made): the constructor has made the
  member handles, by whichever constructors, before the object is complete. The object
  must be a new one and its members live.
\<close>

fun live :: "state \<Rightarrow> handle \<Rightarrow> bool" where
  "live s (Strong h) = (shared_ptrs s h \<noteq> None)"
| "live s (Weak w) = (weak_ptrs s w \<noteq> None)"

definition new_object :: "obj \<Rightarrow> handle list \<Rightarrow> action" where
  "new_object ob hs s =
     (if map_of (objects s) ob = None \<and> ob \<notin> set (destroyed s) \<and> list_all (live s) hs
      then (None, s\<lparr>objects := (ob, hs) # objects s\<rparr>)
      else (Some ObjectLifetime, s))"

datatype operation =
    Default addr
  | Nullptr addr
  | FromPtr ctype addr "obj option"
  | FromPtrDeleter ctype addr "obj option" deleter
  | FromPtrDeleterAlloc ctype addr "obj option" deleter bool
  | Copy addr addr
  | CopyConv ctype addr addr
  | Move addr addr
  | MoveConv ctype addr addr
  | AssignCopy addr addr
  | AssignCopyConv ctype addr addr
  | AssignMove addr addr
  | AssignMoveConv ctype addr addr
  | Reset addr
  | Destroy addr
  | Allocate_Shared ctype addr bool
  | Make_Shared ctype addr bool
  | WeakDefault addr
  | WeakCopy addr addr
  | WeakFromShared addr addr
  | WeakMove addr addr
  | WeakAssignCopy addr addr
  | WeakAssignMove addr addr
  | Lock addr addr
  | WeakDestroy addr
  | NewObject obj "handle list"

fun exec :: "operation \<Rightarrow> action" where
  "exec (Default h) = SharedPtr_default h"
| "exec (Nullptr h) = SharedPtr_nullptr h"
| "exec (FromPtr T h p) = SharedPtr_ptr T h p"
| "exec (FromPtrDeleter T h p d) = SharedPtr_ptr_deleter T h p d"
| "exec (FromPtrDeleterAlloc T h p d throws) = SharedPtr_ptr_deleter_alloc T h p d throws"
| "exec (Copy h other) = SharedPtr_copy h other"
| "exec (CopyConv T h other) = SharedPtr_copy_conv T h other"
| "exec (Move h other) = SharedPtr_move h other"
| "exec (MoveConv T h other) = SharedPtr_move_conv T h other"
| "exec (AssignCopy h other) = SharedPtr_assign_copy h other"
| "exec (AssignCopyConv T h other) = SharedPtr_assign_copy_conv T h other"
| "exec (AssignMove h other) = SharedPtr_assign_move h other"
| "exec (AssignMoveConv T h other) = SharedPtr_assign_move_conv T h other"
| "exec (Reset h) = reset h"
| "exec (Destroy h) = SharedPtr_dtor h"
| "exec (Allocate_Shared T h throws) = AllocateShared T h throws"
| "exec (Make_Shared T h throws) = MakeShared T h throws"
| "exec (WeakDefault w) = WeakPtr_default w"
| "exec (WeakCopy w other) = WeakPtr_copy w other"
| "exec (WeakFromShared w other) = WeakPtr_from_shared w other"
| "exec (WeakMove w other) = WeakPtr_move w other"
| "exec (WeakAssignCopy w other) = WeakPtr_assign_copy w other"
| "exec (WeakAssignMove w other) = WeakPtr_assign_move w other"
| "exec (Lock ret w) = lock ret w"
| "exec (WeakDestroy w) = WeakPtr_dtor w"
| "exec (NewObject ob hs) = new_object ob hs"

text \<open>
  The caller's \<^verbatim>\<open>try { ... } catch (...) { }\<close> around an operation: an exception ends the
  operation and the caller goes on from the state it left; undefined behaviour is not
  caught.
\<close>

definition caught :: "action \<Rightarrow> action" where
  "caught m s = (case m s of (Some Thrown, s') \<Rightarrow> (None, s') | r \<Rightarrow> r)"

text \<open>
  A run executes the operations in order, goes on after an exception, and stops at the
  first undefined behaviour.
\<close>

fun run :: "operation list \<Rightarrow> action" where
  "run [] = skip"
| "run (x # xs) = seq (caught (exec x)) (run xs)"

section \<open>Nesting of destructors\<close>

text \<open>
  \<open>ok k m\<close>: from a state with at most \<open>k\<close> objects listed the action \<open>m\<close> does not end in
  \<open>Exhausted\<close> and lists at most \<open>k\<close> objects afterwards. \<open>safe m\<close>: the action never ends in
  \<open>Exhausted\<close>.
\<close>

definition ok :: "nat \<Rightarrow> action \<Rightarrow> bool" where
  "ok k m \<longleftrightarrow>
     (\<forall>s. length (objects s) \<le> k \<longrightarrow>
        fst (m s) \<noteq> Some Exhausted \<and> length (objects (snd (m s))) \<le> k)"

definition safe :: "action \<Rightarrow> bool" where
  "safe m \<longleftrightarrow> (\<forall>s. fst (m s) \<noteq> Some Exhausted)"

section \<open>Concrete inputs\<close>

text \<open>A strong handle at 1 on a fresh block 0 and a weak handle at 5 observing it.\<close>

definition lock_input :: state where
  "lock_input = snd (run [FromPtr 0 1 (Some (External 7)), WeakFromShared 5 1] init)"

text \<open>
  Two blocks, 0 and 1, each with one strong handle (at 1 and at 2) and one weak handle
  (at 5 and at 6).
\<close>

definition weak_assign_input :: state where
  "weak_assign_input =
     snd (run [FromPtr 0 1 (Some (External 7)), FromPtr 0 2 (Some (External 8)),
               WeakFromShared 5 1, WeakFromShared 6 2] init)"

text \<open>
  \<^verbatim>\<open>SharedPtr<Derived> d(ptr, deleter); SharedPtr<Base> b(std::move(d));\<close> and then both
  handles go out of scope; \<^verbatim>\<open>Derived\<close> is the tag 1, \<^verbatim>\<open>Base\<close> the tag 0, \<open>d\<close> lives at 1
  and \<open>b\<close> at 2.
\<close>

definition converting_move_run :: "operation list" where
  "converting_move_run =
     [FromPtrDeleter 1 1 (Some (External 7)) (CustomDeleter 3), MoveConv 0 2 1,
      Destroy 2, Destroy 1]"

text \<open>
  \<^verbatim>\<open>SharedPtr<T> p(null, deleter); WeakPtr<T> w(p); SharedPtr<T> q(p);\<close>, then \<open>q\<close> is
  destroyed, \<^verbatim>\<open>SharedPtr<T> r; r = p;\<close>, and \<open>r\<close>, \<open>p\<close> and \<open>w\<close> are destroyed.
\<close>

definition null_pointer_copy_run :: "operation list" where
  "null_pointer_copy_run =
     [FromPtrDeleter 0 1 None (CustomDeleter 3), WeakFromShared 5 1, Copy 2 1, Destroy 2,
      Default 3, AssignCopy 3 1, Destroy 3, Destroy 1, WeakDestroy 5]"



text \<open>
  \<^verbatim>\<open>struct A { SharedPtr<B> child; };\<close> and
  \<^verbatim>\<open>struct B { WeakPtr<A> parent; explicit B(const SharedPtr<A>& a) : parent(a) {} };\<close>
  with the block
  \<^verbatim>\<open>{ SharedPtr<A> a(new A); SharedPtr<B> b(new B(a)); a->child = b; }\<close>,
  at whose end \<open>b\<close> and then \<open>a\<close> are destroyed. The object of type \<open>A\<close> is 10 and its member
  \<open>child\<close> lives at 11, the object of type \<open>B\<close> is 20 and its member \<open>parent\<close> lives at 21;
  \<open>a\<close> lives at 1 and \<open>b\<close> at 2.
\<close>

definition parent_child_run :: "operation list" where
  "parent_child_run =
     [Default 11, NewObject (External 10) [Strong 11], FromPtr 0 1 (Some (External 10)),
      WeakFromShared 21 1, NewObject (External 20) [Weak 21], FromPtr 1 2 (Some (External 20)),
      AssignCopy 11 2, Destroy 2, Destroy 1]"

text \<open>
  \<^verbatim>\<open>struct Node { SharedPtr<Node> next; };\<close> with a list of two nodes:
  \<^verbatim>\<open>SharedPtr<Node> head(new Node); { SharedPtr<Node> tmp(new Node); head->next = tmp; }\<close>
  and \<^verbatim>\<open>SharedPtr<Node> second = head->next;\<close>. The first node is 10 with \<open>next\<close> at 11,
  the second node is 20 with \<open>next\<close> at 21; \<open>head\<close> lives at 1, on block 0, and \<open>second\<close> at
  2, on block 1.
\<close>

definition node_input :: state where
  "node_input =
     snd (run [Default 11, NewObject (External 10) [Strong 11], FromPtr 0 1 (Some (External 10)),
               Default 21, NewObject (External 20) [Strong 21], FromPtr 0 3 (Some (External 20)),
               AssignCopy 11 3, Destroy 3, Copy 2 11] init)"

section \<open>Evaluation\<close>

lemmas model_defs = seq_def skip_def say_def with_block_def arrow_def put_block_def emit_def
  new_block_def increase_shared_count_def increase_weak_count_def members_of_def
  destroy_object_def call_deleter_def release_shared_def release_weak_def
  decrease_shared_counter_def decrease_weak_counter_def allocate_def dynamic_cast_def
  with_shared_def with_weak_def destroy_shared_def destructors_def drop_shared_def
  set_shared_def fresh_shared_def SharedPtr_default_def SharedPtr_nullptr_def
  SharedPtr_block_def SharedPtr_ptr_def SharedPtr_ptr_deleter_def
  SharedPtr_ptr_deleter_alloc_def share_if_pointer_def SharedPtr_copy_def
  SharedPtr_copy_conv_def SharedPtr_move_def SharedPtr_move_conv_def
  take_shared_def SharedPtr_assign_copy_def SharedPtr_assign_copy_conv_def
  SharedPtr_assign_move_def SharedPtr_assign_move_conv_def SharedPtr_dtor_def use_count_def
  get_def reset_def AllocateShared_def MakeShared_def set_weak_def
  fresh_weak_def WeakPtr_default_def WeakPtr_copy_def WeakPtr_from_shared_def
  WeakPtr_move_def WeakPtr_assign_copy_def WeakPtr_assign_move_def lock_def
  WeakPtr_dtor_def new_object_def caught_def init_def

section \<open>The nesting budget is enough\<close>

lemma okI:
  "(\<And>s. length (objects s) \<le> k \<Longrightarrow>
      fst (m s) \<noteq> Some Exhausted \<and> length (objects (snd (m s))) \<le> k) \<Longrightarrow> ok k m"
  by (simp add: ok_def)

lemma okD:
  "ok k m \<Longrightarrow> length (objects s) \<le> k \<Longrightarrow>
   fst (m s) \<noteq> Some Exhausted \<and> length (objects (snd (m s))) \<le> k"
  by (simp add: ok_def)

lemma ok_skip: "ok k skip"
  by (simp add: ok_def skip_def)

lemma ok_same:
  "(\<And>s. objects (f s) = objects s) \<Longrightarrow> ok k (\<lambda>s. (None, f s))"
  by (simp add: ok_def)

lemma ok_say: "ok k (say es)"
  by (simp add: ok_def say_def emit_def)

lemma ok_seq:
  assumes "ok k m" and "ok k f"
  shows "ok k (seq m f)"
proof (rule okI)
  fix s :: state assume le: "length (objects s) \<le> k"
  obtain r s' where ms: "m s = (r, s')" by (cases "m s")
  from okD [OF assms(1) le] ms have r: "r \<noteq> Some Exhausted" and le': "length (objects s') \<le> k"
    by simp_all
  show "fst (seq m f s) \<noteq> Some Exhausted \<and> length (objects (snd (seq m f s))) \<le> k"
  proof (cases r)
    case None
    with ms have "seq m f s = f s'" by (simp add: seq_def)
    with okD [OF assms(2) le'] show ?thesis by simp
  next
    case (Some e)
    with ms have "seq m f s = (Some e, s')" by (simp add: seq_def)
    with r le' Some show ?thesis by simp
  qed
qed

lemma ok_with_block: "(\<And>blk. ok k (f blk)) \<Longrightarrow> ok k (with_block this f)"
  by (auto simp: ok_def with_block_def split: option.splits)

lemma ok_with_shared: "(\<And>cb. ok k (f cb)) \<Longrightarrow> ok k (with_shared this f)"
  by (auto simp: ok_def with_shared_def split: option.splits)

lemma ok_with_weak: "(\<And>cb. ok k (f cb)) \<Longrightarrow> ok k (with_weak this f)"
  by (auto simp: ok_def with_weak_def split: option.splits)

lemma ok_each: "(\<And>h. ok k (D h)) \<Longrightarrow> ok k (each D hs)"
  by (induction hs) (simp_all add: ok_skip ok_seq)

lemma ok_mono_each:
  assumes "\<And>h. ok j (D h)" and "length (objects s) \<le> j" and "j \<le> k"
  shows "fst (each D hs s) \<noteq> Some Exhausted \<and> length (objects (snd (each D hs s))) \<le> k"
  using okD [OF ok_each [of j D hs], OF assms(1) assms(2)] assms(3) by auto

lemma filter_shorter:
  "map_of xs a = Some v \<Longrightarrow> length (filter (\<lambda>p. fst p \<noteq> a) xs) < length xs"
  by (induction xs) (auto simp: less_Suc_eq_le split: if_splits)

lemma ok_destroy_object:
  assumes "\<And>j h. j < k \<Longrightarrow> ok j (D h)"
  shows "ok k (destroy_object D ob)"
proof (rule okI)
  fix s :: state assume le: "length (objects s) \<le> k"
  define s1 where "s1 = s\<lparr>objects := filter (\<lambda>p. fst p \<noteq> ob) (objects s),
                          destroyed := ob # destroyed s\<rparr>"
  show "fst (destroy_object D ob s) \<noteq> Some Exhausted \<and>
        length (objects (snd (destroy_object D ob s))) \<le> k"
  proof (cases "ob \<in> set (destroyed s)")
    case True
    with le show ?thesis by (simp add: destroy_object_def)
  next
    case False
    show ?thesis
    proof (cases "map_of (objects s) ob")
      case None
      with False le show ?thesis
        by (simp add: destroy_object_def members_of_def skip_def le_trans [OF length_filter_le])
    next
      case (Some hs)
      then have "length (objects s1) < length (objects s)"
        by (simp add: s1_def filter_shorter)
      with le have lt: "length (objects s1) < k" by simp
      from ok_mono_each [of "length (objects s1)" D s1 k hs] assms [OF lt] lt
      have "fst (each D hs s1) \<noteq> Some Exhausted \<and> length (objects (snd (each D hs s1))) \<le> k"
        by simp
      with False Some show ?thesis by (simp add: destroy_object_def members_of_def s1_def)
    qed
  qed
qed

lemma ok_call_deleter:
  assumes "\<And>j h. j < k \<Longrightarrow> ok j (D h)"
  shows "ok k (call_deleter D d ptr)"
  unfolding call_deleter_def
  by (intro ok_seq ok_say) (simp add: ok_skip ok_destroy_object [OF assms]
      split: deleter.splits option.splits)

lemma ok_release_shared:
  assumes "\<And>j h. j < k \<Longrightarrow> ok j (D h)"
  shows "ok k (release_shared D this)"
  unfolding release_shared_def
proof (intro ok_with_block ok_seq ok_say)
  fix blk :: block
  show "ok k (case kind blk of ControlBlock d \<Rightarrow> call_deleter D d (pointer blk)
      | BlockVault \<Rightarrow> seq (say [DestroyValue this]) (destroy_object D (InPlace this)))"
    by (cases "kind blk")
       (simp_all add: ok_call_deleter [OF assms] ok_seq ok_say ok_destroy_object [OF assms])
next
  fix blk' :: block
  show "ok k (\<lambda>s. (None, emit [ReleasedShared this] (put_block this (blk'\<lparr>pointer := None\<rparr>) s)))"
    by (rule ok_same) (simp add: emit_def put_block_def)
qed

lemma ok_release_weak: "ok k (release_weak this)"
  unfolding release_weak_def
  by (rule ok_with_block) (simp add: ok_def emit_def split: block_kind.splits)

lemma ok_decrease_shared_counter:
  assumes "\<And>j h. j < k \<Longrightarrow> ok j (D h)"
  shows "ok k (decrease_shared_counter D this)"
  unfolding decrease_shared_counter_def
proof (intro ok_with_block ok_seq)
  fix blk :: block
  show "ok k (\<lambda>s. (None, put_block this (blk\<lparr>shared_count := shared_count blk - 1\<rparr>) s))"
    by (rule ok_same) (simp add: put_block_def)
  have "ok k (with_block this (\<lambda>blk'.
      if weak_count blk' = 0 then release_weak this else (\<lambda>s. (None, s))))"
    by (rule ok_with_block) (simp add: ok_release_weak ok_same)
  then show "ok k (if shared_count blk - 1 = 0
      then seq (release_shared D this)
             (with_block this (\<lambda>blk'.
                if weak_count blk' = 0 then release_weak this else (\<lambda>s. (None, s))))
      else (\<lambda>s. (None, s)))"
    by (simp add: ok_seq ok_release_shared [OF assms] ok_same)
qed

lemma ok_decrease_weak_counter: "ok k (decrease_weak_counter this)"
  unfolding decrease_weak_counter_def
proof (intro ok_with_block ok_seq)
  fix blk :: block
  show "ok k (\<lambda>s. (None, put_block this (blk\<lparr>weak_count := weak_count blk - 1\<rparr>) s))"
    by (rule ok_same) (simp add: put_block_def)
  show "ok k (if shared_count blk = 0 \<and> weak_count blk - 1 = 0 then release_weak this
      else (\<lambda>s. (None, s)))"
    by (simp add: ok_release_weak ok_same)
qed

lemma ok_WeakPtr_dtor: "ok k (WeakPtr_dtor this)"
  unfolding WeakPtr_dtor_def
proof (intro ok_with_weak ok_seq)
  fix cb
  show "ok k (case cb of None \<Rightarrow> (\<lambda>s. (None, s)) | Some b \<Rightarrow> decrease_weak_counter b)"
    by (cases cb) (simp_all add: ok_same ok_decrease_weak_counter)
  show "ok k (\<lambda>s. (None, s\<lparr>weak_ptrs := (weak_ptrs s)(this := None)\<rparr>))"
    by (rule ok_same) simp
qed

lemma ok_destroy_shared:
  assumes "\<And>j h. j < k \<Longrightarrow> ok j (D h)"
  shows "ok k (destroy_shared D this)"
  unfolding destroy_shared_def
proof (intro ok_with_shared ok_seq)
  fix cb
  show "ok k (case cb of None \<Rightarrow> skip | Some b \<Rightarrow> decrease_shared_counter D b)"
    by (cases cb) (simp_all add: ok_skip ok_decrease_shared_counter [OF assms])
  show "ok k (\<lambda>s. (None, s\<lparr>shared_ptrs := (shared_ptrs s)(this := None)\<rparr>))"
    by (rule ok_same) simp
qed

lemma ok_destroy_member: "j < n \<Longrightarrow> ok j (destroy_member n h)"
proof (induction n arbitrary: j h)
  case 0
  then show ?case by simp
next
  case (Suc n)
  show ?case
  proof (cases h)
    case (Strong a)
    have "ok j (destroy_shared (destroy_member n) a)"
    proof (rule ok_destroy_shared)
      fix i h' assume "i < j"
      with Suc.prems have "i < n" by simp
      then show "ok i (destroy_member n h')" by (rule Suc.IH)
    qed
    with Strong show ?thesis by simp
  next
    case (Weak w)
    then show ?thesis by (simp add: ok_WeakPtr_dtor)
  qed
qed

lemma safe_drop_shared: "safe (drop_shared cb)"
  unfolding safe_def
proof
  fix s :: state
  show "fst (drop_shared cb s) \<noteq> Some Exhausted"
  proof (cases cb)
    case None
    then show ?thesis by (simp add: drop_shared_def)
  next
    case (Some b)
    have "ok (length (objects s)) (decrease_shared_counter (destructors s) b)"
      unfolding destructors_def by (rule ok_decrease_shared_counter) (rule ok_destroy_member)
    from okD [OF this, of s] Some show ?thesis by (simp add: drop_shared_def)
  qed
qed

lemma safe_SharedPtr_dtor: "safe (SharedPtr_dtor this)"
  unfolding safe_def
proof
  fix s :: state
  have "ok (length (objects s)) (destroy_shared (destructors s) this)"
    unfolding destructors_def by (rule ok_destroy_shared) (rule ok_destroy_member)
  from okD [OF this, of s] show "fst (SharedPtr_dtor this s) \<noteq> Some Exhausted"
    by (simp add: SharedPtr_dtor_def)
qed

lemma ok_safe: "(\<And>k. ok k m) \<Longrightarrow> safe m"
  unfolding safe_def ok_def by blast

lemma safe_WeakPtr_dtor: "safe (WeakPtr_dtor this)"
  by (rule ok_safe) (rule ok_WeakPtr_dtor)

lemma safe_seq: "safe m \<Longrightarrow> safe f \<Longrightarrow> safe (seq m f)"
  unfolding safe_def seq_def
  by (auto split: prod.splits option.splits) (metis fst_conv)

lemma safe_with_shared: "(\<And>cb. safe (f cb)) \<Longrightarrow> safe (with_shared this f)"
  by (auto simp: safe_def with_shared_def split: option.splits)

lemma safe_with_weak: "(\<And>cb. safe (f cb)) \<Longrightarrow> safe (with_weak this f)"
  by (auto simp: safe_def with_weak_def split: option.splits)

lemma safe_with_block: "(\<And>blk. safe (f blk)) \<Longrightarrow> safe (with_block this f)"
  by (auto simp: safe_def with_block_def split: option.splits)

lemma safe_fresh_shared: "safe f \<Longrightarrow> safe (fresh_shared this f)"
  by (simp add: safe_def fresh_shared_def)

lemma safe_fresh_weak: "safe f \<Longrightarrow> safe (fresh_weak this f)"
  by (simp add: safe_def fresh_weak_def)

lemma safe_cast:
  "(\<And>cb. safe (f cb)) \<Longrightarrow>
   safe (\<lambda>s. case dynamic_cast T ocb s of Inl e \<Rightarrow> (Some e, s) | Inr cb \<Rightarrow> f cb s)"
  by (auto simp: safe_def dynamic_cast_def split: sum.splits option.splits)

lemma safe_plain [simp]:
  "safe (\<lambda>s. (None, f s))" "safe skip" "safe (set_shared this cb)" "safe (set_weak w cb)"
  "safe (increase_shared_count b)" "safe (increase_weak_count b)"
  by (simp_all add: safe_def skip_def set_shared_def set_weak_def increase_shared_count_def
      increase_weak_count_def with_block_def split: option.splits)

lemma safe_take_shared: "safe (take_shared cb)"
  by (cases cb) (simp_all add: take_shared_def)

lemma safe_share_if_pointer: "safe (share_if_pointer cb)"
  by (cases cb) (auto simp: share_if_pointer_def intro!: safe_with_block)

lemma safe_constructors:
  "safe (SharedPtr_default this)" "safe (SharedPtr_nullptr this)"
  "safe (SharedPtr_block this cb)" "safe (SharedPtr_ptr T this ptr)"
  "safe (SharedPtr_ptr_deleter T this ptr d)"
  "safe (SharedPtr_ptr_deleter_alloc T this ptr d throws)"
  "safe (WeakPtr_default w)"
  by (simp_all add: safe_def SharedPtr_default_def SharedPtr_nullptr_def SharedPtr_block_def
      SharedPtr_ptr_def SharedPtr_ptr_deleter_def SharedPtr_ptr_deleter_alloc_def
      WeakPtr_default_def fresh_shared_def fresh_weak_def set_shared_def set_weak_def
      split_beta)

lemma safe_AllocateShared: "safe (AllocateShared T this throws)"
  by (simp add: safe_def AllocateShared_def SharedPtr_block_def fresh_shared_def set_shared_def
      dynamic_cast_def split_beta Let_def put_block_def allocate_def split: sum.splits)

lemma safe_copies:
  "safe (SharedPtr_copy this other)" "safe (SharedPtr_copy_conv T this other)"
  "safe (SharedPtr_move this other)" "safe (SharedPtr_move_conv T this other)"
  unfolding SharedPtr_copy_def SharedPtr_copy_conv_def SharedPtr_move_def
    SharedPtr_move_conv_def
  by (intro safe_fresh_shared safe_with_shared safe_cast safe_seq safe_share_if_pointer
      safe_plain)+

lemma safe_assignments:
  "safe (SharedPtr_assign_copy this other)" "safe (SharedPtr_assign_copy_conv T this other)"
  "safe (SharedPtr_assign_move this other)" "safe (SharedPtr_assign_move_conv T this other)"
proof -
  have "safe (with_shared this (\<lambda>cb. seq (drop_shared cb)
      (with_shared other (\<lambda>ocb. seq (set_shared this ocb) (take_shared ocb)))))"
    by (intro safe_with_shared safe_seq safe_drop_shared safe_take_shared safe_plain)
  then show "safe (SharedPtr_assign_copy this other)"
    by (simp add: SharedPtr_assign_copy_def)
  have "safe (with_shared this (\<lambda>cb. seq (drop_shared cb)
      (with_shared other (\<lambda>ocb. seq (set_shared this ocb) (set_shared other None)))))"
    by (intro safe_with_shared safe_seq safe_drop_shared safe_plain)
  then show "safe (SharedPtr_assign_move this other)"
    by (simp add: SharedPtr_assign_move_def)
  show "safe (SharedPtr_assign_copy_conv T this other)"
    unfolding SharedPtr_assign_copy_conv_def
    by (intro safe_with_shared safe_cast safe_seq safe_drop_shared safe_take_shared safe_plain)
  show "safe (SharedPtr_assign_move_conv T this other)"
    unfolding SharedPtr_assign_move_conv_def
    by (intro safe_with_shared safe_cast safe_seq safe_drop_shared safe_plain)
qed

lemma safe_reset: "safe (reset this)"
  unfolding reset_def
proof (rule safe_with_shared)
  fix cb
  show "safe (case cb of None \<Rightarrow> (\<lambda>s. (None, s))
      | Some b \<Rightarrow> seq (drop_shared cb) (set_shared this None))"
    by (cases cb) (simp_all add: safe_seq safe_drop_shared)
qed

lemma safe_weak_operations:
  "safe (WeakPtr_copy this other)" "safe (WeakPtr_from_shared this other)"
  "safe (WeakPtr_move this other)" "safe (WeakPtr_assign_copy this other)"
  "safe (WeakPtr_assign_move this other)" "safe (lock ret this)"
  by (auto simp: safe_def WeakPtr_copy_def WeakPtr_from_shared_def WeakPtr_move_def
      WeakPtr_assign_copy_def WeakPtr_assign_move_def lock_def SharedPtr_default_def
      SharedPtr_block_def fresh_weak_def fresh_shared_def with_weak_def with_shared_def
      with_block_def seq_def set_weak_def set_shared_def arrow_def increase_weak_count_def
      split: option.splits prod.splits if_splits)

lemma safe_new_object: "safe (new_object ob hs)"
  by (simp add: safe_def new_object_def)

lemma safe_exec: "safe (exec x)"
  by (cases x)
     (simp_all add: safe_constructors safe_copies safe_assignments safe_reset
        safe_SharedPtr_dtor safe_AllocateShared MakeShared_def safe_weak_operations
        safe_WeakPtr_dtor safe_new_object)

lemma safe_caught: "safe m \<Longrightarrow> safe (caught m)"
  unfolding safe_def caught_def
  by (auto split: prod.splits option.splits fault.splits) (metis fst_conv)

lemma safe_run: "safe (run ops)"
  by (induction ops) (simp_all add: safe_seq safe_caught safe_exec)

text \<open>
  The nesting budget of the destructors is enough: no operation and no run ends in
  \<open>Exhausted\<close>, from any state.
\<close>

lemma exec_never_exhausted: "fst (exec x s) \<noteq> Some Exhausted"
  using safe_exec [of x] by (simp add: safe_def)

lemma run_never_exhausted: "fst (run ops s) \<noteq> Some Exhausted"
  using safe_run [of ops] by (simp add: safe_def)

section \<open>WeakPtr::lock\<close>

lemma lock_keeps_blocks: "blocks (snd (lock ret w s)) = blocks s"
  by (simp add: model_defs split: option.splits)

text \<open>
  Claim C1: \<^verbatim>\<open>lock()\<close> returns an empty handle when the block is null or its
  \<^verbatim>\<open>shared_count\<close> is 0, and otherwise a handle sharing the block, with \<^verbatim>\<open>shared_count\<close>
  one greater than before. The code hands the block to the private constructor, which
  only stores it: with one strong and one weak handle on block 0, \<^verbatim>\<open>lock()\<close> returns a
  handle on block 0 and \<^verbatim>\<open>shared_count\<close> is 1 before the call and 1 after it.
\<close>

theorem lock_does_not_increment:
  "map_option shared_count (blocks lock_input 0) = Some 1 \<and>
   weak_ptrs lock_input 5 = Some (Some 0) \<and>
   fst (lock 2 5 lock_input) = None \<and>
   shared_ptrs (snd (lock 2 5 lock_input)) 2 = Some (Some 0) \<and>
   map_option shared_count (blocks (snd (lock 2 5 lock_input)) 0) = Some 1"
  by (simp add: lock_input_def model_defs)

section \<open>Failure of construction\<close>

lemma failed_block_construction_trace:
  "shared_ptrs s this = None \<Longrightarrow>
   SharedPtr_ptr_deleter_alloc T this ptr d True s =
     (Some Thrown, emit [Allocate (next_block s), DeleterCall d ptr]
                     (s\<lparr>next_block := Suc (next_block s)\<rparr>))"
  by (simp add: SharedPtr_ptr_deleter_alloc_def fresh_shared_def allocate_def emit_def)

lemma failed_in_place_construction_trace:
  "shared_ptrs s this = None \<Longrightarrow>
   AllocateShared T this True s =
     (Some Thrown, emit [Allocate (next_block s)] (s\<lparr>next_block := Suc (next_block s)\<rparr>))"
  by (simp add: AllocateShared_def fresh_shared_def allocate_def)

text \<open>
  Claim C2: when construction of the control block throws in
  \<^verbatim>\<open>SharedPtr(ptr, deleter, alloc)\<close>, the deleter is called once on \<open>ptr\<close> and the raw
  memory of the block is deallocated before the exception leaves. The code calls the
  deleter and rethrows: the trace of the failing constructor is the allocation and the
  deleter call, with no deallocation, and no handle exists.
\<close>

theorem failed_block_construction_leaks:
  "fst (SharedPtr_ptr_deleter_alloc 0 1 (Some (External 7)) (CustomDeleter 3) True init)
     = Some Thrown \<and>
   trace (snd (SharedPtr_ptr_deleter_alloc 0 1 (Some (External 7)) (CustomDeleter 3) True init))
     = [Allocate 0, DeleterCall (CustomDeleter 3) (Some (External 7))] \<and>
   shared_ptrs (snd (SharedPtr_ptr_deleter_alloc 0 1 (Some (External 7)) (CustomDeleter 3)
     True init)) 1 = None"
  by (simp add: model_defs)

text \<open>
  Claim C3: when the in-place construction of the managed object throws in
  \<^verbatim>\<open>AllocateShared\<close>, the raw block memory is deallocated before the exception leaves;
  on success the handle references a block with \<^verbatim>\<open>shared_count == 1\<close>. The code has no
  handler: the failing call leaves the allocation in the trace with no deallocation. The
  successful call yields a block with \<^verbatim>\<open>shared_count\<close> 1.
\<close>

theorem failed_in_place_construction_leaks:
  "fst (AllocateShared 0 1 True init) = Some Thrown \<and>
   trace (snd (AllocateShared 0 1 True init)) = [Allocate 0] \<and>
   shared_ptrs (snd (AllocateShared 0 1 True init)) 1 = None \<and>
   fst (AllocateShared 0 1 False init) = None \<and>
   shared_ptrs (snd (AllocateShared 0 1 False init)) 1 = Some (Some 0) \<and>
   map_option shared_count (blocks (snd (AllocateShared 0 1 False init)) 0) = Some 1"
  by (simp add: model_defs)

section \<open>WeakPtr assignment and expired\<close>

lemma weak_assignment_keeps_blocks:
  "blocks (snd (WeakPtr_assign_copy this other s)) = blocks s"
  "blocks (snd (WeakPtr_assign_move this other s)) = blocks s"
  by (simp_all add: WeakPtr_assign_copy_def WeakPtr_assign_move_def with_weak_def set_weak_def
      split: option.splits)

lemma weak_move_assignment_keeps_source:
  "this \<noteq> other \<Longrightarrow>
   weak_ptrs (snd (WeakPtr_assign_move this other s)) other = weak_ptrs s other"
  by (simp add: WeakPtr_assign_move_def with_weak_def set_weak_def split: option.splits)

text \<open>
  Claim C4: copy assignment of a \<^verbatim>\<open>WeakPtr\<close> decrements the \<^verbatim>\<open>weak_count\<close> of the old
  block and increments that of the new one; move assignment changes no counter and nulls
  the source. The code copies the pointer in both: after \<^verbatim>\<open>w5 = w6\<close> both handles point
  to block 1 and both blocks still have \<^verbatim>\<open>weak_count\<close> 1; after \<^verbatim>\<open>w5 = std::move(w6)\<close>
  the source \<open>w6\<close> still points to block 1.
\<close>

theorem weak_assignment_copies_pointer:
  "map_option weak_count (blocks weak_assign_input 0) = Some 1 \<and>
   map_option weak_count (blocks weak_assign_input 1) = Some 1 \<and>
   weak_ptrs weak_assign_input 5 = Some (Some 0) \<and>
   weak_ptrs weak_assign_input 6 = Some (Some 1) \<and>
   fst (WeakPtr_assign_copy 5 6 weak_assign_input) = None \<and>
   weak_ptrs (snd (WeakPtr_assign_copy 5 6 weak_assign_input)) 5 = Some (Some 1) \<and>
   map_option weak_count (blocks (snd (WeakPtr_assign_copy 5 6 weak_assign_input)) 0) = Some 1 \<and>
   map_option weak_count (blocks (snd (WeakPtr_assign_copy 5 6 weak_assign_input)) 1) = Some 1 \<and>
   fst (WeakPtr_assign_move 5 6 weak_assign_input) = None \<and>
   weak_ptrs (snd (WeakPtr_assign_move 5 6 weak_assign_input)) 5 = Some (Some 1) \<and>
   weak_ptrs (snd (WeakPtr_assign_move 5 6 weak_assign_input)) 6 = Some (Some 1)"
  by (simp add: weak_assign_input_def model_defs)

text \<open>
  Claim C5: \<^verbatim>\<open>expired()\<close> is total and returns a boolean also on a default-constructed
  \<^verbatim>\<open>WeakPtr\<close>. The code reads \<^verbatim>\<open>control_block_->shared_count\<close> with no null test: on a
  default-constructed handle it dereferences the null pointer.
\<close>

theorem expired_on_empty_dereferences_null:
  "fst (WeakPtr_default 5 init) = None \<and>
   weak_ptrs (snd (WeakPtr_default 5 init)) 5 = Some None \<and>
   expired 5 (snd (WeakPtr_default 5 init)) = Inl NullDereference"
  by (simp add: expired_def model_defs)

section \<open>Self-assignment\<close>

text \<open>
  Claim C7: the same-instance assignment \<^verbatim>\<open>p = p\<close> of a \<^verbatim>\<open>SharedPtr\<close>, by copy or by
  move, is a no-op: the state is the one before, so \<^verbatim>\<open>use_count()\<close> and \<^verbatim>\<open>get()\<close>
  are unchanged and the trace gains no release.
\<close>

theorem self_assignment_no_op:
  "SharedPtr_assign_copy p p s = (None, s) \<and>
   SharedPtr_assign_move p p s = (None, s) \<and>
   use_count p (snd (SharedPtr_assign_copy p p s)) = use_count p s \<and>
   get p (snd (SharedPtr_assign_copy p p s)) = get p s \<and>
   trace (snd (SharedPtr_assign_copy p p s)) = trace s \<and>
   use_count p (snd (SharedPtr_assign_move p p s)) = use_count p s \<and>
   get p (snd (SharedPtr_assign_move p p s)) = get p s \<and>
   trace (snd (SharedPtr_assign_move p p s)) = trace s"
  by (simp add: SharedPtr_assign_copy_def SharedPtr_assign_move_def)

section \<open>Deleter calls\<close>

text \<open>
  Claim C8: once every strong handle of a block made with a custom deleter is destroyed
  or reset, the deleter has been called exactly once, however many copies and moves
  there were. In the code the converting move constructor casts the block pointer with
  \<^verbatim>\<open>dynamic_cast\<close> to an unrelated instantiation of \<^verbatim>\<open>BaseControlBlock\<close>, gets null, and
  nulls the source: after the run below no handle is left, block 0 still has
  \<^verbatim>\<open>shared_count\<close> 1 and the deleter was never called.
\<close>

theorem converting_move_loses_block:
  "fst (run converting_move_run init) = None \<and>
   trace (snd (run converting_move_run init)) = [Allocate 0] \<and>
   shared_ptrs (snd (run converting_move_run init)) 1 = None \<and>
   shared_ptrs (snd (run converting_move_run init)) 2 = None \<and>
   map_option shared_count (blocks (snd (run converting_move_run init)) 0) = Some 1"
  by (simp add: converting_move_run_def model_defs)

text \<open>
  The copy constructor increments only when the block's object pointer is non-null, and
  the destructor always decrements. With a null managed pointer and a weak handle keeping
  the block alive, the deleter runs twice, and the block is never deallocated.
\<close>

lemma null_pointer_copy_calls_deleter_twice:
  "fst (run null_pointer_copy_run init) = None \<and>
   trace (snd (run null_pointer_copy_run init)) =
     [Allocate 0, ReleaseShared 0, DeleterCall (CustomDeleter 3) None, ReleasedShared 0,
      ReleaseShared 0, DeleterCall (CustomDeleter 3) None, ReleasedShared 0]"
  by (simp add: null_pointer_copy_run_def model_defs)

section \<open>Construction from a null raw pointer\<close>



section \<open>Order of the releases\<close>

text \<open>
  Claim C6: over every sequence of public operations, \<^verbatim>\<open>release_weak\<close> is called at
  most once on a block, strictly after \<^verbatim>\<open>release_shared\<close> (the destruction of the
  object), and only when both counters of the block are 0. In the code
  \<^verbatim>\<open>decrease_shared_counter\<close> holds no count of its own on the block while
  \<^verbatim>\<open>release_shared\<close> runs. With a parent that owns its child and a child that observes
  its parent, destroying the last owner of the parent runs the parent's destructor, which
  destroys the child, whose \<^verbatim>\<open>WeakPtr\<close> is the last reference to the parent's block:
  \<^verbatim>\<open>release_weak\<close> is called on block 0 while \<^verbatim>\<open>release_shared\<close> on block 0 has not
  returned, and \<^verbatim>\<open>release_shared\<close> then writes \<^verbatim>\<open>this->pointer\<close> in the deallocated
  block. Up to the last destructor the run is free of faults.
\<close>

theorem release_weak_inside_release_shared:
  "fst (run (butlast parent_child_run) init) = None \<and>
   last parent_child_run = Destroy 1 \<and>
   fst (run parent_child_run init) = Some UseAfterFree \<and>
   trace (snd (run parent_child_run init)) =
     [Allocate 0, Allocate 1,
      ReleaseShared 0, DeleterCall DefaultDelete (Some (External 10)),
      ReleaseShared 1, DeleterCall DefaultDelete (Some (External 20)),
      ReleaseWeak 0 0 0, DestroyBlock 0, Deallocate 0,
      ReleasedShared 1, ReleaseWeak 1 0 0, DestroyBlock 1, Deallocate 1] \<and>
   ReleasedShared 0 \<notin> set (trace (snd (run parent_child_run init))) \<and>
   blocks (snd (run parent_child_run init)) 0 = None"
  by (simp add: parent_child_run_def model_defs)

section \<open>Moves\<close>



text \<open>
  The move assignment releases the block of the destination first, and releasing its last
  share runs the destructor of the object it managed: on the list of two nodes,
  \<^verbatim>\<open>head = std::move(second)\<close> deletes the first node, whose member \<open>next\<close> gives up its
  share of block 1, the block \<open>second\<close> referenced and \<open>head\<close> did not: the
  \<^verbatim>\<open>shared_count\<close> of block 1 goes from 2 to 1.
\<close>

lemma move_assignment_runs_destructor:
  "shared_ptrs node_input 1 = Some (Some 0) \<and>
   shared_ptrs node_input 2 = Some (Some 1) \<and>
   map_option shared_count (blocks node_input 0) = Some 1 \<and>
   map_option shared_count (blocks node_input 1) = Some 2 \<and>
   fst (SharedPtr_assign_move 1 2 node_input) = None \<and>
   shared_ptrs (snd (SharedPtr_assign_move 1 2 node_input)) 1 = Some (Some 1) \<and>
   shared_ptrs (snd (SharedPtr_assign_move 1 2 node_input)) 2 = Some None \<and>
   map_option shared_count (blocks (snd (SharedPtr_assign_move 1 2 node_input)) 1) = Some 1"
  by (simp add: node_input_def model_defs)



end
